theory Spec2Isabelle
  imports Complex_Main
begin

section \<open>Numbers and the noise source\<close>

text \<open>
  The program \<^verbatim>\<open>digital_twin.py\<close> computes with Python and NumPy floats. The
  values it stores are modelled as \<^typ>\<open>real\<close>: rounding and overflow are outside the
  model, and every statement below is about the exact arithmetic the code writes down.

  The one operation of the code that exact arithmetic leaves undefined is the division
  by \<^verbatim>\<open>self.optimal_temp\<close> (line 23). Its left operand is the NumPy scalar that
  \<^verbatim>\<open>np.clip\<close> returned on line 22, so with a zero divisor the division raises nothing:
  it yields an infinity or NaN (with a warning) and the method goes on. The value of an
  expression is therefore a real number (\<open>Inr\<close>) or one of the three values below
  (\<open>Inl\<close>). A real number has no sign at zero: the zero divisor is the \<^verbatim>\<open>0\<close> or
  \<^verbatim>\<open>0.0\<close> of Python.
\<close>

datatype non_finite = PosInf | NegInf | NaN

type_synonym float = "non_finite + real"

text \<open>
  \<^verbatim>\<open>np.random.normal(loc, scale)\<close> reads the process-wide generator. The generator is
  made explicit: a noise source \<open>ns\<close> lists the values the generator hands out, in call
  order, and a position counts the draws made so far. A draw returns the value at the
  position and moves the position by one. A normal variate can be any real number, so
  \<open>loc\<close> and \<open>scale\<close> do not restrict the value; they are kept so that each call site
  reads as in the source.
\<close>

type_synonym noise = "nat \<Rightarrow> real"

definition normal :: "real \<Rightarrow> real \<Rightarrow> noise \<Rightarrow> nat \<Rightarrow> real \<times> nat" where
  "normal loc scale ns k = (ns k, Suc k)"

text \<open>\<^verbatim>\<open>np.clip(a, a_min, a_max)\<close> is \<^verbatim>\<open>minimum(a_max, maximum(a, a_min))\<close>.\<close>

definition clip :: "real \<Rightarrow> real \<Rightarrow> real \<Rightarrow> real" where
  "clip a a_min a_max = min a_max (max a a_min)"

text \<open>
  Python's \<^verbatim>\<open>x % m\<close> on floats takes the sign of the divisor: \<open>x - m * floor (x / m)\<close>.
  The only divisor in the source is the literal 360 (line 51).
\<close>

definition py_mod :: "real \<Rightarrow> real \<Rightarrow> real" where
  "py_mod x m = x - m * of_int \<lfloor>x / m\<rfloor>"

text \<open>
  The three operations of line 24, on a value that line 23 may have made an infinity or
  NaN. The product \<^verbatim>\<open>self.production_rate * temp_factor\<close> has a real number on the
  left: an infinity keeps or flips its sign with the sign of that number, and zero times
  an infinity is NaN. Adding the draw, a real number, changes no infinity and no NaN.
  Python's \<^verbatim>\<open>max(0, x)\<close> returns \<open>x\<close> if \<^verbatim>\<open>x > 0\<close> holds and \<open>0\<close> otherwise; the
  comparison is false for NaN and for the negative infinity.
\<close>

definition mul_float :: "real \<Rightarrow> float \<Rightarrow> float" where
  "mul_float p x =
     (case x of
        Inr r \<Rightarrow> Inr (p * r)
      | Inl PosInf \<Rightarrow> (if 0 < p then Inl PosInf else if p < 0 then Inl NegInf else Inl NaN)
      | Inl NegInf \<Rightarrow> (if 0 < p then Inl NegInf else if p < 0 then Inl PosInf else Inl NaN)
      | Inl NaN \<Rightarrow> Inl NaN)"

definition add_float :: "float \<Rightarrow> real \<Rightarrow> float" where
  "add_float x n = (case x of Inr r \<Rightarrow> Inr (r + n) | Inl v \<Rightarrow> Inl v)"

definition py_max0 :: "float \<Rightarrow> float" where
  "py_max0 x =
     (case x of
        Inr r \<Rightarrow> Inr (max 0 r)
      | Inl PosInf \<Rightarrow> Inl PosInf
      | Inl NegInf \<Rightarrow> Inr 0
      | Inl NaN \<Rightarrow> Inr 0)"

section \<open>ManufacturingMachine\<close>

record manufacturing_machine =
  temperature :: real
  max_temp :: real
  optimal_temp :: real
  production_rate :: real
  power_consumption :: real
  pressure :: real
  stress :: real

text \<open>\<^verbatim>\<open>ManufacturingMachine.__init__\<close> (lines 11 to 18): seven plain assignments.\<close>

definition ManufacturingMachine_init ::
  "real \<Rightarrow> real \<Rightarrow> real \<Rightarrow> real \<Rightarrow> real \<Rightarrow> manufacturing_machine" where
  "ManufacturingMachine_init initial_temp max_temp' optimal_temp' initial_production_rate initial_power =
     \<lparr> temperature = initial_temp,
       max_temp = max_temp',
       optimal_temp = optimal_temp',
       production_rate = initial_production_rate,
       power_consumption = initial_power,
       pressure = 1,
       stress = 1 \<rparr>"

text \<open>
  Line 23, \<^verbatim>\<open>1 - abs(self.temperature - self.optimal_temp) / self.optimal_temp\<close>, as a
  function of the two fields it reads. With \<open>opt = 0\<close> the quotient is \<open>0 / 0\<close>, NaN, at
  \<open>t = 0\<close> and the positive infinity otherwise, and 1 minus it is NaN and the negative
  infinity.
\<close>

definition temp_factor :: "real \<Rightarrow> real \<Rightarrow> float" where
  "temp_factor t opt =
     (if opt = 0 then (if t = 0 then Inl NaN else Inl NegInf)
      else Inr (1 - \<bar>t - opt\<bar> / opt))"

text \<open>
  \<^verbatim>\<open>ManufacturingMachine.update\<close> (lines 20 to 28). The five draws are made in the
  order of the source. Line 24 stores a real number, unless \<open>temp_factor\<close> is the negative
  infinity and the production rate is negative: then the source stores the positive
  infinity and goes on. A state of real numbers cannot hold it, and the model ends
  there with that value (\<open>Inl\<close>); it needs \<open>optimal_temp = 0\<close> and a negative production
  rate, which only the constructor can supply.
\<close>

definition ManufacturingMachine_update ::
  "noise \<Rightarrow> nat \<Rightarrow> manufacturing_machine \<Rightarrow> non_finite + (manufacturing_machine \<times> nat)" where
  "ManufacturingMachine_update ns k0 m =
     (let (n1, k1) = normal 0 2 ns k0;
          t = clip (temperature m + n1) 0 (max_temp m);
          tf = temp_factor t (optimal_temp m);
          (n2, k2) = normal 0 (1/2) ns k1
      in case py_max0 (add_float (mul_float (production_rate m) tf) n2) of
           Inl v \<Rightarrow> Inl v
         | Inr p \<Rightarrow>
             (let (n3, k3) = normal 0 (1/5) ns k2;
                  pw = clip (power_consumption m + n3) 0 100;
                  (n4, k4) = normal 0 (1/10) ns k3;
                  (n5, k5) = normal 0 (1/20) ns k4
              in Inr (m\<lparr> temperature := t,
                         production_rate := p,
                         power_consumption := pw,
                         pressure := pressure m + n4,
                         stress := stress m + n5 \<rparr>, k5)))"

text \<open>The machine of line 147.\<close>

definition machine0 :: manufacturing_machine where
  "machine0 = ManufacturingMachine_init 70 100 75 10 50"

section \<open>DigitalTwin\<close>

text \<open>
  A \<^verbatim>\<open>Line2D\<close> of matplotlib, as far as the program uses it: the two data sequences
  that \<^verbatim>\<open>set_data\<close> stores.
\<close>

record line2d =
  xdata :: "int list"
  ydata :: "real list"

definition set_data :: "int list \<Rightarrow> real list \<Rightarrow> line2d \<Rightarrow> line2d" where
  "set_data xs ys l = l\<lparr> xdata := xs, ydata := ys \<rparr>"

text \<open>The attributes \<^verbatim>\<open>DigitalTwin.__init__\<close> creates (lines 31 to 39).\<close>

record digital_twin =
  machine :: manufacturing_machine
  time :: "int list"
  temp_history :: "real list"
  prod_history :: "real list"
  power_history :: "real list"
  pressure_history :: "real list"
  stress_history :: "real list"
  rotation :: real

text \<open>
  \<^verbatim>\<open>visualize\<close> adds the axes and the five lines to the object (lines 119 to 130).
  Only an object that has them can run \<^verbatim>\<open>update\<close>, which reads them from line 53 on,
  so \<^verbatim>\<open>update\<close> is typed on the extended record. The axes \<^verbatim>\<open>ax1\<close> to \<^verbatim>\<open>ax6\<close> are
  matplotlib objects that only the drawing calls touch; they are not modelled.
\<close>

record digital_twin_fig = digital_twin +
  temp_line :: line2d
  prod_line :: line2d
  power_line :: line2d
  pressure_line :: line2d
  stress_line :: line2d

definition DigitalTwin_init :: "manufacturing_machine \<Rightarrow> digital_twin" where
  "DigitalTwin_init m =
     \<lparr> machine = m, time = [], temp_history = [], prod_history = [], power_history = [],
       pressure_history = [], stress_history = [], rotation = 0 \<rparr>"

text \<open>
  The set-up part of \<^verbatim>\<open>visualize\<close>: each line comes from \<^verbatim>\<open>plot([], [])\<close>. Its last
  three lines hand \<^verbatim>\<open>self.update\<close> to \<^verbatim>\<open>FuncAnimation\<close>, the scheduler, which is
  \<open>run\<close> below.
\<close>

definition visualize_setup :: "digital_twin \<Rightarrow> digital_twin_fig" where
  "visualize_setup d =
     \<lparr> machine = machine d, time = time d, temp_history = temp_history d,
       prod_history = prod_history d, power_history = power_history d,
       pressure_history = pressure_history d, stress_history = stress_history d,
       rotation = rotation d,
       temp_line = \<lparr> xdata = [], ydata = [] \<rparr>,
       prod_line = \<lparr> xdata = [], ydata = [] \<rparr>,
       power_line = \<lparr> xdata = [], ydata = [] \<rparr>,
       pressure_line = \<lparr> xdata = [], ydata = [] \<rparr>,
       stress_line = \<lparr> xdata = [], ydata = [] \<rparr> \<rparr>"

type_synonym lines = "line2d \<times> line2d \<times> line2d \<times> line2d \<times> line2d"

text \<open>
  \<^verbatim>\<open>DigitalTwin.update\<close> (lines 41 to 115). The state is the object together with the
  position of the noise source. Lines 59 to 113 redraw the axes: they read the state
  and change matplotlib objects only, so they have no counterpart here. The result is
  the tuple of line 115.
\<close>

definition DigitalTwin_update ::
  "noise \<Rightarrow> int \<Rightarrow> digital_twin_fig \<times> nat \<Rightarrow> non_finite + ((digital_twin_fig \<times> nat) \<times> lines)" where
  "DigitalTwin_update ns frame s =
     (case s of (d, k) \<Rightarrow>
        (case ManufacturingMachine_update ns k (machine d) of
           Inl v \<Rightarrow> Inl v
         | Inr (m, k') \<Rightarrow>
             (let d1 = d\<lparr> machine := m \<rparr>;
                  d2 = d1\<lparr> time := time d1 @ [frame] \<rparr>;
                  d3 = d2\<lparr> temp_history := temp_history d2 @ [temperature (machine d2)] \<rparr>;
                  d4 = d3\<lparr> prod_history := prod_history d3 @ [production_rate (machine d3)] \<rparr>;
                  d5 = d4\<lparr> power_history := power_history d4 @ [power_consumption (machine d4)] \<rparr>;
                  d6 = d5\<lparr> pressure_history := pressure_history d5 @ [pressure (machine d5)] \<rparr>;
                  d7 = d6\<lparr> stress_history := stress_history d6 @ [stress (machine d6)] \<rparr>;
                  d8 = d7\<lparr> rotation := rotation d7 + production_rate (machine d7) * 5 \<rparr>;
                  d9 = d8\<lparr> rotation := py_mod (rotation d8) 360 \<rparr>;
                  d10 = d9\<lparr> temp_line := set_data (time d9) (temp_history d9) (temp_line d9),
                             prod_line := set_data (time d9) (prod_history d9) (prod_line d9),
                             power_line := set_data (time d9) (power_history d9) (power_line d9),
                             pressure_line := set_data (time d9) (pressure_history d9) (pressure_line d9),
                             stress_line := set_data (time d9) (stress_history d9) (stress_line d9) \<rparr>
              in Inr ((d10, k'),
                      (temp_line d10, prod_line d10, power_line d10, pressure_line d10,
                       stress_line d10)))))"

text \<open>
  The scheduler: \<^verbatim>\<open>FuncAnimation\<close> calls \<^verbatim>\<open>update\<close> once for each frame it is
  given, one call after the other. The run ends where the machine leaves the real
  numbers.
\<close>

fun run :: "noise \<Rightarrow> int list \<Rightarrow> digital_twin_fig \<times> nat \<Rightarrow> non_finite + (digital_twin_fig \<times> nat)" where
  "run ns [] s = Inr s"
| "run ns (frame # frames) s =
     (case DigitalTwin_update ns frame s of
        Inl v \<Rightarrow> Inl v
      | Inr (s', r) \<Rightarrow> run ns frames s')"

text \<open>The program of lines 147 to 149, before the first frame.\<close>

definition twin0 :: digital_twin_fig where
  "twin0 = visualize_setup (DigitalTwin_init machine0)"

text \<open>A noise source whose every draw is zero.\<close>

definition zero_noise :: noise where
  "zero_noise = (\<lambda>_. 0)"

section \<open>Lemmas about one step and about runs\<close>

lemma update_ok:
  "optimal_temp m \<noteq> 0 \<Longrightarrow>
   ManufacturingMachine_update ns k m =
     Inr (m\<lparr> temperature := clip (temperature m + ns k) 0 (max_temp m),
            production_rate :=
              max 0 (production_rate m *
                       (1 - \<bar>clip (temperature m + ns k) 0 (max_temp m) - optimal_temp m\<bar> / optimal_temp m)
                     + ns (k + 1)),
            power_consumption := clip (power_consumption m + ns (k + 2)) 0 100,
            pressure := pressure m + ns (k + 3),
            stress := stress m + ns (k + 4) \<rparr>, k + 5)"
  by (simp add: ManufacturingMachine_update_def normal_def temp_factor_def mul_float_def
      add_float_def py_max0_def Let_def numeral_eq_Suc)

lemma update_zero:
  "optimal_temp m = 0 \<Longrightarrow> 0 \<le> production_rate m \<Longrightarrow>
   ManufacturingMachine_update ns k m =
     Inr (m\<lparr> temperature := clip (temperature m + ns k) 0 (max_temp m),
            production_rate := 0,
            power_consumption := clip (power_consumption m + ns (k + 2)) 0 100,
            pressure := pressure m + ns (k + 3),
            stress := stress m + ns (k + 4) \<rparr>, k + 5)"
  by (simp add: ManufacturingMachine_update_def normal_def temp_factor_def mul_float_def
      add_float_def py_max0_def Let_def numeral_eq_Suc)


lemma update_returns:
  assumes "optimal_temp m \<noteq> 0 \<or> 0 \<le> production_rate m"
  shows "\<exists>m'. ManufacturingMachine_update ns k m = Inr (m', k + 5)"
proof (cases "optimal_temp m = 0")
  case True
  with assms have "0 \<le> production_rate m" by simp
  from update_zero [OF True this, of ns k] show ?thesis by simp
next
  case False
  from update_ok [OF False, of ns k] show ?thesis by simp
qed

lemma py_mod_bounds:
  assumes "0 < m"
  shows "0 \<le> py_mod x m \<and> py_mod x m < m"
proof -
  have "m * of_int \<lfloor>x / m\<rfloor> \<le> m * (x / m)"
    using assms of_int_floor_le [of "x / m"] by (intro mult_left_mono) auto
  with assms have a: "m * of_int \<lfloor>x / m\<rfloor> \<le> x" by simp
  have "m * (x / m) < m * (of_int \<lfloor>x / m\<rfloor> + 1)"
    using assms floor_correct [of "x / m"] by (intro mult_strict_left_mono) auto
  with assms have b: "x < m * of_int \<lfloor>x / m\<rfloor> + m" by (simp add: algebra_simps)
  from a b show ?thesis by (simp add: py_mod_def)
qed

lemma twin_update_ok:
  assumes "ManufacturingMachine_update ns k (machine d) = Inr (m, k')"
  shows "DigitalTwin_update ns frame (d, k) =
     Inr ((d\<lparr> machine := m,
               time := time d @ [frame],
               temp_history := temp_history d @ [temperature m],
               prod_history := prod_history d @ [production_rate m],
               power_history := power_history d @ [power_consumption m],
               pressure_history := pressure_history d @ [pressure m],
               stress_history := stress_history d @ [stress m],
               rotation := py_mod (rotation d + production_rate m * 5) 360,
               temp_line := set_data (time d @ [frame]) (temp_history d @ [temperature m]) (temp_line d),
               prod_line := set_data (time d @ [frame]) (prod_history d @ [production_rate m]) (prod_line d),
               power_line := set_data (time d @ [frame]) (power_history d @ [power_consumption m]) (power_line d),
               pressure_line := set_data (time d @ [frame]) (pressure_history d @ [pressure m]) (pressure_line d),
               stress_line := set_data (time d @ [frame]) (stress_history d @ [stress m]) (stress_line d) \<rparr>, k'),
          (set_data (time d @ [frame]) (temp_history d @ [temperature m]) (temp_line d),
           set_data (time d @ [frame]) (prod_history d @ [production_rate m]) (prod_line d),
           set_data (time d @ [frame]) (power_history d @ [power_consumption m]) (power_line d),
           set_data (time d @ [frame]) (pressure_history d @ [pressure m]) (pressure_line d),
           set_data (time d @ [frame]) (stress_history d @ [stress m]) (stress_line d)))"
  using assms by (simp add: DigitalTwin_update_def Let_def)

lemma twin_update_Inl:
  "ManufacturingMachine_update ns k (machine d) = Inl v \<Longrightarrow> DigitalTwin_update ns frame (d, k) = Inl v"
  by (simp add: DigitalTwin_update_def)

lemma update_inv:
  assumes "optimal_temp m \<noteq> 0" "0 \<le> max_temp m"
  shows "\<exists>m'. ManufacturingMachine_update ns k m = Inr (m', k + 5) \<and>
           max_temp m' = max_temp m \<and> optimal_temp m' = optimal_temp m \<and>
           0 \<le> temperature m' \<and> temperature m' \<le> max_temp m' \<and>
           0 \<le> power_consumption m' \<and> power_consumption m' \<le> 100 \<and>
           0 \<le> production_rate m'"
  using assms by (simp add: update_ok clip_def)

lemma update_config:
  "ManufacturingMachine_update ns k m = Inr (m', k') \<Longrightarrow>
     max_temp m' = max_temp m \<and> optimal_temp m' = optimal_temp m \<and> k' = k + 5"
  by (auto simp: ManufacturingMachine_update_def normal_def Let_def numeral_eq_Suc
      split: sum.splits)

lemma twin_update_fields:
  assumes "ManufacturingMachine_update ns k (machine d) = Inr (m, k')"
  shows "\<exists>d'. DigitalTwin_update ns frame (d, k) =
           Inr ((d', k'), (temp_line d', prod_line d', power_line d', pressure_line d', stress_line d')) \<and>
         machine d' = m \<and>
         time d' = time d @ [frame] \<and>
         temp_history d' = temp_history d @ [temperature m] \<and>
         prod_history d' = prod_history d @ [production_rate m] \<and>
         power_history d' = power_history d @ [power_consumption m] \<and>
         pressure_history d' = pressure_history d @ [pressure m] \<and>
         stress_history d' = stress_history d @ [stress m] \<and>
         rotation d' = py_mod (rotation d + production_rate m * 5) 360 \<and>
         temp_line d' = \<lparr> xdata = time d', ydata = temp_history d' \<rparr> \<and>
         prod_line d' = \<lparr> xdata = time d', ydata = prod_history d' \<rparr> \<and>
         power_line d' = \<lparr> xdata = time d', ydata = power_history d' \<rparr> \<and>
         pressure_line d' = \<lparr> xdata = time d', ydata = pressure_history d' \<rparr> \<and>
         stress_line d' = \<lparr> xdata = time d', ydata = stress_history d' \<rparr>"
  by (simp add: twin_update_ok [OF assms] set_data_def)

lemma run_bounds:
  assumes "optimal_temp (machine d) \<noteq> 0"
    and "0 \<le> temperature (machine d)" and "temperature (machine d) \<le> max_temp (machine d)"
    and "0 \<le> power_consumption (machine d)" and "power_consumption (machine d) \<le> 100"
    and "0 \<le> production_rate (machine d)"
  shows "\<exists>d' k'. run ns frames (d, k) = Inr (d', k') \<and>
           max_temp (machine d') = max_temp (machine d) \<and>
           0 \<le> temperature (machine d') \<and> temperature (machine d') \<le> max_temp (machine d') \<and>
           0 \<le> power_consumption (machine d') \<and> power_consumption (machine d') \<le> 100 \<and>
           0 \<le> production_rate (machine d')"
  using assms
proof (induction frames arbitrary: d k)
  case Nil
  then show ?case by simp
next
  case (Cons frame frames)
  from Cons.prems have mt: "0 \<le> max_temp (machine d)" by linarith
  from update_inv [OF Cons.prems(1) mt, of ns k] obtain m where
    m: "ManufacturingMachine_update ns k (machine d) = Inr (m, k + 5)"
      "max_temp m = max_temp (machine d)" "optimal_temp m = optimal_temp (machine d)"
      "0 \<le> temperature m" "temperature m \<le> max_temp m"
      "0 \<le> power_consumption m" "power_consumption m \<le> 100" "0 \<le> production_rate m"
    by blast
  from twin_update_fields [OF m(1), of frame] obtain d1 r where
    d1: "DigitalTwin_update ns frame (d, k) = Inr ((d1, k + 5), r)" "machine d1 = m"
    by blast
  have "\<exists>d' k'. run ns frames (d1, k + 5) = Inr (d', k') \<and>
           max_temp (machine d') = max_temp (machine d1) \<and>
           0 \<le> temperature (machine d') \<and> temperature (machine d') \<le> max_temp (machine d') \<and>
           0 \<le> power_consumption (machine d') \<and> power_consumption (machine d') \<le> 100 \<and>
           0 \<le> production_rate (machine d')"
    using m Cons.prems(1) by (intro Cons.IH) (simp_all add: d1(2))
  then show ?case by (simp add: d1 m(2))
qed


lemma machine_visualize_setup: "machine (visualize_setup (DigitalTwin_init m)) = m"
  by (simp add: visualize_setup_def DigitalTwin_init_def)

lemma py_mod_small: "0 \<le> x \<Longrightarrow> x < m \<Longrightarrow> py_mod x m = x"
  by (simp add: py_mod_def floor_eq_iff)

lemma twin_update_Inr:
  assumes "DigitalTwin_update ns frame (d, k) = Inr ((d', k'), r)"
  shows "\<exists>m. ManufacturingMachine_update ns k (machine d) = Inr (m, k')"
proof (cases "ManufacturingMachine_update ns k (machine d)")
  case (Inl v)
  from twin_update_Inl [OF Inl, of frame] assms show ?thesis by simp
next
  case (Inr p)
  obtain m k1 where p: "p = (m, k1)" by (cases p)
  from twin_update_fields [OF Inr [unfolded p], of frame] assms have "k1 = k'" by auto
  with Inr p show ?thesis by simp
qed

lemma rotation_update_irrelevant:
  "map_sum id snd (DigitalTwin_update ns frame (d\<lparr> rotation := x \<rparr>, k)) =
   map_sum id snd (DigitalTwin_update ns frame (d, k))"
proof (cases "ManufacturingMachine_update ns k (machine d)")
  case (Inl v)
  have "ManufacturingMachine_update ns k (machine (d\<lparr> rotation := x \<rparr>)) = Inl v"
    using Inl by simp
  from twin_update_Inl [OF this] twin_update_Inl [OF Inl] show ?thesis by simp
next
  case (Inr p)
  obtain m k1 where p: "p = (m, k1)" by (cases p)
  have "ManufacturingMachine_update ns k (machine (d\<lparr> rotation := x \<rparr>)) = Inr (m, k1)"
    using Inr p by simp
  from twin_update_ok [OF this] twin_update_ok [OF Inr [unfolded p]] show ?thesis
    by (simp add: set_data_def)
qed

lemma twin0_fields:
  "machine twin0 = \<lparr> temperature = 70, max_temp = 100, optimal_temp = 75, production_rate = 10,
                      power_consumption = 50, pressure = 1, stress = 1 \<rparr>"
  "time twin0 = []" "temp_history twin0 = []" "prod_history twin0 = []"
  "power_history twin0 = []" "pressure_history twin0 = []" "stress_history twin0 = []"
  "rotation twin0 = 0"
  by (simp_all add: twin0_def visualize_setup_def DigitalTwin_init_def machine0_def
      ManufacturingMachine_init_def)

lemma twin0_first_update:
  "ManufacturingMachine_update zero_noise 0 (machine twin0) =
     Inr (\<lparr> temperature = 70, max_temp = 100, optimal_temp = 75, production_rate = 28 / 3,
             power_consumption = 50, pressure = 1, stress = 1 \<rparr>, 5)"
  by (simp add: twin0_fields update_ok clip_def zero_noise_def)

lemma twin0_first_return:
  "map_sum id snd (DigitalTwin_update zero_noise 7 (twin0, 0)) =
     Inr (\<lparr> xdata = [7], ydata = [70] \<rparr>, \<lparr> xdata = [7], ydata = [28 / 3] \<rparr>,
          \<lparr> xdata = [7], ydata = [50] \<rparr>, \<lparr> xdata = [7], ydata = [1] \<rparr>,
          \<lparr> xdata = [7], ydata = [1] \<rparr>)"
  by (simp add: twin_update_ok [OF twin0_first_update] twin0_fields set_data_def)




section \<open>The claims\<close>

text \<open>
  Claim C1. A machine is constructed with parameters inside the documented bounds
  (\<open>0 \<le> initial_temp \<le> max_temp\<close>, \<open>0 \<le> initial_power \<le> 100\<close>,
  \<open>0 \<le> initial_production_rate\<close>, \<open>optimal_temp \<noteq> 0\<close>), as the machine of line 147
  is. Then for every noise source and every number of calls of the driver's
  \<^verbatim>\<open>update\<close> (one call for each frame of \<open>frames\<close>, so also for none), the run ends
  in a state with \<open>0 \<le> temperature \<le> max_temp\<close>,
  \<open>0 \<le> power_consumption \<le> 100\<close> and \<open>0 \<le> production_rate\<close>.
\<close>

theorem bounds_invariant:
  assumes "0 \<le> initial_temp" and "initial_temp \<le> mt" and "ot \<noteq> 0"
    and "0 \<le> initial_production_rate" and "0 \<le> initial_power" and "initial_power \<le> 100"
  shows "\<exists>d k'.
           run ns frames
             (visualize_setup (DigitalTwin_init
                (ManufacturingMachine_init initial_temp mt ot initial_production_rate initial_power)), k)
             = Inr (d, k') \<and>
           max_temp (machine d) = mt \<and>
           0 \<le> temperature (machine d) \<and> temperature (machine d) \<le> max_temp (machine d) \<and>
           0 \<le> power_consumption (machine d) \<and> power_consumption (machine d) \<le> 100 \<and>
           0 \<le> production_rate (machine d)"
proof -
  let ?d = "visualize_setup (DigitalTwin_init
              (ManufacturingMachine_init initial_temp mt ot initial_production_rate initial_power))"
  have "\<exists>d' k'. run ns frames (?d, k) = Inr (d', k') \<and>
           max_temp (machine d') = max_temp (machine ?d) \<and>
           0 \<le> temperature (machine d') \<and> temperature (machine d') \<le> max_temp (machine d') \<and>
           0 \<le> power_consumption (machine d') \<and> power_consumption (machine d') \<le> 100 \<and>
           0 \<le> production_rate (machine d')"
    using assms
    by (intro run_bounds) (simp_all add: machine_visualize_setup ManufacturingMachine_init_def)
  then show ?thesis by (simp add: machine_visualize_setup ManufacturingMachine_init_def)
qed

theorem bounds_invariant_witness:
  "\<exists>d k'. run zero_noise [0, 1, 2] (twin0, 0) = Inr (d, k') \<and>
     max_temp (machine d) = 100 \<and>
     0 \<le> temperature (machine d) \<and> temperature (machine d) \<le> max_temp (machine d) \<and>
     0 \<le> power_consumption (machine d) \<and> power_consumption (machine d) \<le> 100 \<and>
     0 \<le> production_rate (machine d)"
  using bounds_invariant [of 70 100 75 10 50 zero_noise "[0, 1, 2]" 0]
  by (simp add: twin0_def machine0_def)

text \<open>
  Claim C2. The machine of line 147 (70, 100, 75, 10, 50) makes one update in which
  each of the five draws is zero. Then \<open>temp_factor\<close> is \<open>1 - |70 - 75| / 75 = 14 / 15\<close>,
  the production rate becomes \<open>max 0 (10 * 14 / 15) = 28 / 3\<close>, and temperature 70,
  power consumption 50, pressure 1 and stress 1 are unchanged.
\<close>

theorem zero_noise_scenario:
  assumes "\<And>i. i < 5 \<Longrightarrow> ns (k + i) = 0"
  shows "temp_factor 70 75 = Inr (14 / 15) \<and>
         ManufacturingMachine_update ns k (ManufacturingMachine_init 70 100 75 10 50) =
           Inr (\<lparr> temperature = 70, max_temp = 100, optimal_temp = 75,
                   production_rate = 28 / 3, power_consumption = 50,
                   pressure = 1, stress = 1 \<rparr>, k + 5)"
proof -
  have z: "ns k = 0" "ns (Suc k) = 0" "ns (Suc (Suc k)) = 0" "ns (k + 3) = 0" "ns (k + 4) = 0"
    using assms [of 0] assms [of 1] assms [of 2] assms [of 3] assms [of 4] by simp_all
  have tf: "temp_factor 70 75 = Inr (14 / 15)"
    by (simp add: temp_factor_def)
  have "ManufacturingMachine_update ns k (ManufacturingMachine_init 70 100 75 10 50) =
           Inr (\<lparr> temperature = 70, max_temp = 100, optimal_temp = 75,
                   production_rate = 28 / 3, power_consumption = 50,
                   pressure = 1, stress = 1 \<rparr>, k + 5)"
    by (simp add: update_ok ManufacturingMachine_init_def clip_def z)
  with tf show ?thesis by simp
qed

theorem zero_noise_scenario_witness:
  "temp_factor 70 75 = Inr (14 / 15) \<and>
   ManufacturingMachine_update zero_noise 0 machine0 =
     Inr (\<lparr> temperature = 70, max_temp = 100, optimal_temp = 75,
             production_rate = 28 / 3, power_consumption = 50,
             pressure = 1, stress = 1 \<rparr>, 5)"
  using zero_noise_scenario [of zero_noise 0] by (simp add: zero_noise_def machine0_def)

text \<open>
  Claim C3. For every frame index and every driver state, one call of the driver's
  \<^verbatim>\<open>update\<close> runs the machine's \<^verbatim>\<open>update\<close> exactly once: it makes the five draws
  of one update, and the machine it leaves is the machine \<open>m\<close> which that update returns.
  The call appends the frame index and the post-update temperature, production rate,
  power consumption, pressure and stress, one entry each, to the histories. It sets the
  rotation to \<open>(rotation + production_rate * 5) mod 360\<close> with the post-update production
  rate: to \<open>x - 360 * floor (x / 360)\<close> for \<open>x = rotation + production_rate * 5\<close>, a
  number in \<open>[0, 360)\<close>. The machine's update returns such an \<open>m\<close> in every state,
  unless the machine has \<open>optimal_temp = 0\<close> and a negative production rate.
\<close>

theorem tick_effects:
  "(optimal_temp (machine d) \<noteq> 0 \<or> 0 \<le> production_rate (machine d) \<longrightarrow>
      (\<exists>m. ManufacturingMachine_update ns k (machine d) = Inr (m, k + 5))) \<and>
   (\<forall>m k'. ManufacturingMachine_update ns k (machine d) = Inr (m, k') \<longrightarrow>
      k' = k + 5 \<and>
      (\<exists>d' r. DigitalTwin_update ns frame (d, k) = Inr ((d', k'), r) \<and>
         machine d' = m \<and>
         time d' = time d @ [frame] \<and>
         temp_history d' = temp_history d @ [temperature m] \<and>
         prod_history d' = prod_history d @ [production_rate m] \<and>
         power_history d' = power_history d @ [power_consumption m] \<and>
         pressure_history d' = pressure_history d @ [pressure m] \<and>
         stress_history d' = stress_history d @ [stress m] \<and>
         rotation d' = rotation d + production_rate m * 5
                       - 360 * of_int \<lfloor>(rotation d + production_rate m * 5) / 360\<rfloor> \<and>
         0 \<le> rotation d' \<and> rotation d' < 360))"
proof (intro conjI impI allI)
  assume "optimal_temp (machine d) \<noteq> 0 \<or> 0 \<le> production_rate (machine d)"
  then show "\<exists>m. ManufacturingMachine_update ns k (machine d) = Inr (m, k + 5)"
    by (rule update_returns)
next
  fix m k' assume u: "ManufacturingMachine_update ns k (machine d) = Inr (m, k')"
  from update_config [OF u] show "k' = k + 5" by simp
  from twin_update_fields [OF u, of frame] obtain d' r where
    t: "DigitalTwin_update ns frame (d, k) = Inr ((d', k'), r)"
       "machine d' = m"
       "time d' = time d @ [frame]"
       "temp_history d' = temp_history d @ [temperature m]"
       "prod_history d' = prod_history d @ [production_rate m]"
       "power_history d' = power_history d @ [power_consumption m]"
       "pressure_history d' = pressure_history d @ [pressure m]"
       "stress_history d' = stress_history d @ [stress m]"
       "rotation d' = py_mod (rotation d + production_rate m * 5) 360"
    by blast
  from t(9) have f: "rotation d' = rotation d + production_rate m * 5
                          - 360 * of_int \<lfloor>(rotation d + production_rate m * 5) / 360\<rfloor>"
    by (simp add: py_mod_def)
  from t(9) py_mod_bounds [of 360 "rotation d + production_rate m * 5"]
  have b: "0 \<le> rotation d'" "rotation d' < 360" by simp_all
  from t(1-8) f b
  show "\<exists>d' r. DigitalTwin_update ns frame (d, k) = Inr ((d', k'), r) \<and>
            machine d' = m \<and>
            time d' = time d @ [frame] \<and>
            temp_history d' = temp_history d @ [temperature m] \<and>
            prod_history d' = prod_history d @ [production_rate m] \<and>
            power_history d' = power_history d @ [power_consumption m] \<and>
            pressure_history d' = pressure_history d @ [pressure m] \<and>
            stress_history d' = stress_history d @ [stress m] \<and>
            rotation d' = rotation d + production_rate m * 5
                          - 360 * of_int \<lfloor>(rotation d + production_rate m * 5) / 360\<rfloor> \<and>
            0 \<le> rotation d' \<and> rotation d' < 360"
    by blast
qed

text \<open>
  Two calls with zero noise and frame 7, both started at rotation 350. The machine of
  line 147 comes out with production rate \<open>28 / 3\<close>, and \<open>350 + 140 / 3 = 1190 / 3\<close>
  wraps to \<open>110 / 3\<close>. The same machine with \<open>optimal_temp = 0\<close> comes out with production
  rate 0, and the rotation stays at 350.
\<close>

theorem tick_effects_witness:
  "ManufacturingMachine_update zero_noise 0 (machine (twin0\<lparr> rotation := 350 \<rparr>)) =
     Inr (\<lparr> temperature = 70, max_temp = 100, optimal_temp = 75, production_rate = 28 / 3,
             power_consumption = 50, pressure = 1, stress = 1 \<rparr>, 5) \<and>
   (\<exists>d' r. DigitalTwin_update zero_noise 7 (twin0\<lparr> rotation := 350 \<rparr>, 0) = Inr ((d', 5), r) \<and>
      machine d' = \<lparr> temperature = 70, max_temp = 100, optimal_temp = 75, production_rate = 28 / 3,
                      power_consumption = 50, pressure = 1, stress = 1 \<rparr> \<and>
      time d' = [7] \<and> temp_history d' = [70] \<and> prod_history d' = [28 / 3] \<and>
      power_history d' = [50] \<and> pressure_history d' = [1] \<and> stress_history d' = [1] \<and>
      rotation d' = 110 / 3) \<and>
   ManufacturingMachine_update zero_noise 0
       (machine (twin0\<lparr> machine := machine0\<lparr> optimal_temp := 0 \<rparr>, rotation := 350 \<rparr>)) =
     Inr (\<lparr> temperature = 70, max_temp = 100, optimal_temp = 0, production_rate = 0,
             power_consumption = 50, pressure = 1, stress = 1 \<rparr>, 5) \<and>
   (\<exists>d' r. DigitalTwin_update zero_noise 7
               (twin0\<lparr> machine := machine0\<lparr> optimal_temp := 0 \<rparr>, rotation := 350 \<rparr>, 0) =
             Inr ((d', 5), r) \<and>
      machine d' = \<lparr> temperature = 70, max_temp = 100, optimal_temp = 0, production_rate = 0,
                      power_consumption = 50, pressure = 1, stress = 1 \<rparr> \<and>
      time d' = [7] \<and> temp_history d' = [70] \<and> prod_history d' = [0] \<and>
      power_history d' = [50] \<and> pressure_history d' = [1] \<and> stress_history d' = [1] \<and>
      rotation d' = 350)"
proof -
  let ?m = "\<lparr> temperature = 70, max_temp = 100, optimal_temp = 75, production_rate = 28 / 3,
              power_consumption = 50, pressure = 1, stress = 1 \<rparr>"
  let ?z = "\<lparr> temperature = 70, max_temp = 100, optimal_temp = 0, production_rate = 0,
              power_consumption = 50, pressure = 1, stress = 1 \<rparr>"
  let ?d = "twin0\<lparr> rotation := 350 \<rparr>"
  let ?e = "twin0\<lparr> machine := machine0\<lparr> optimal_temp := 0 \<rparr>, rotation := 350 \<rparr>"
  have u: "ManufacturingMachine_update zero_noise 0 (machine ?d) = Inr (?m, 5)"
    using twin0_first_update by simp
  have v: "ManufacturingMachine_update zero_noise 0 (machine ?e) = Inr (?z, 5)"
    by (simp add: update_zero machine0_def ManufacturingMachine_init_def clip_def zero_noise_def)
  have f: "\<lfloor>(350 + 28 / 3 * 5) / 360 :: real\<rfloor> = 1" "\<lfloor>350 / 360 :: real\<rfloor> = 0"
    by (simp_all add: floor_eq_iff)
  have a: "\<exists>d' r. DigitalTwin_update zero_noise 7 (?d, 0) = Inr ((d', 5), r) \<and>
      machine d' = ?m \<and>
      time d' = [7] \<and> temp_history d' = [70] \<and> prod_history d' = [28 / 3] \<and>
      power_history d' = [50] \<and> pressure_history d' = [1] \<and> stress_history d' = [1] \<and>
      rotation d' = 110 / 3"
    using tick_effects [of ?d zero_noise 0 7, THEN conjunct2, rule_format, OF u]
    by (simp add: twin0_fields f) blast
  have b: "\<exists>d' r. DigitalTwin_update zero_noise 7 (?e, 0) = Inr ((d', 5), r) \<and>
      machine d' = ?z \<and>
      time d' = [7] \<and> temp_history d' = [70] \<and> prod_history d' = [0] \<and>
      power_history d' = [50] \<and> pressure_history d' = [1] \<and> stress_history d' = [1] \<and>
      rotation d' = 350"
    using tick_effects [of ?e zero_noise 0 7, THEN conjunct2, rule_format, OF v]
    by (simp add: twin0_fields f) blast
  from u v a b show ?thesis by blast
qed

text \<open>
  Claim C4, as stated: every call of the driver's \<^verbatim>\<open>update\<close> returns the current values
  of temperature, production rate, power consumption, pressure, stress and rotation.
  The code returns the tuple of line 115 instead: the five \<^verbatim>\<open>Line2D\<close> objects. At the
  first call of the program with zero noise and frame 7 the result is five lines, each
  with the x data \<open>[7]\<close>, while the rotation is \<open>140 / 3\<close>; started from rotation 90 the
  call returns the same five lines and ends with rotation \<open>410 / 3\<close>. The rotation is not
  part of the result.
\<close>

theorem tick_return_counterexample:
  "map_sum id snd (DigitalTwin_update zero_noise 7 (twin0, 0)) =
     Inr (\<lparr> xdata = [7], ydata = [70] \<rparr>, \<lparr> xdata = [7], ydata = [28 / 3] \<rparr>,
          \<lparr> xdata = [7], ydata = [50] \<rparr>, \<lparr> xdata = [7], ydata = [1] \<rparr>,
          \<lparr> xdata = [7], ydata = [1] \<rparr>) \<and>
   map_sum id (rotation \<circ> fst \<circ> fst) (DigitalTwin_update zero_noise 7 (twin0, 0)) = Inr (140 / 3) \<and>
   map_sum id snd (DigitalTwin_update zero_noise 7 (twin0\<lparr> rotation := 90 \<rparr>, 0)) =
     map_sum id snd (DigitalTwin_update zero_noise 7 (twin0, 0)) \<and>
   map_sum id (rotation \<circ> fst \<circ> fst) (DigitalTwin_update zero_noise 7 (twin0\<lparr> rotation := 90 \<rparr>, 0)) =
     Inr (410 / 3)"
proof -
  have a: "py_mod (140 / 3) 360 = 140 / 3" by (rule py_mod_small) simp_all
  have b: "py_mod (410 / 3) 360 = 410 / 3" by (rule py_mod_small) simp_all
  have u: "ManufacturingMachine_update zero_noise 0 (machine (twin0\<lparr> rotation := 90 \<rparr>)) =
     Inr (\<lparr> temperature = 70, max_temp = 100, optimal_temp = 75, production_rate = 28 / 3,
             power_consumption = 50, pressure = 1, stress = 1 \<rparr>, 5)"
    using twin0_first_update by simp
  have 1: "map_sum id (rotation \<circ> fst \<circ> fst) (DigitalTwin_update zero_noise 7 (twin0, 0)) = Inr (140 / 3)"
    by (simp add: twin_update_ok [OF twin0_first_update] twin0_fields a)
  have 2: "map_sum id (rotation \<circ> fst \<circ> fst) (DigitalTwin_update zero_noise 7 (twin0\<lparr> rotation := 90 \<rparr>, 0)) =
     Inr (410 / 3)"
    by (simp add: twin_update_ok [OF u] twin0_fields b)
  from twin0_first_return 1 2 rotation_update_irrelevant [of zero_noise 7 90 twin0 0]
  show ?thesis by simp
qed

text \<open>
  Claim C4, amended. Every call of the driver's \<^verbatim>\<open>update\<close> that returns, returns the
  five lines for temperature, production rate, power consumption, pressure and stress.
  Each line holds the whole time axis as x data and the whole history of its quantity as
  y data, whose last entry is the post-update value of that quantity. The result does not
  depend on the rotation the call started from: the rotation stays in the driver state.
\<close>

theorem tick_returns_lines:
  assumes "DigitalTwin_update ns frame (d, k) = Inr ((d', k'), r)"
  shows "r = (\<lparr> xdata = time d', ydata = temp_history d' \<rparr>,
              \<lparr> xdata = time d', ydata = prod_history d' \<rparr>,
              \<lparr> xdata = time d', ydata = power_history d' \<rparr>,
              \<lparr> xdata = time d', ydata = pressure_history d' \<rparr>,
              \<lparr> xdata = time d', ydata = stress_history d' \<rparr>) \<and>
         time d' = time d @ [frame] \<and>
         temp_history d' = temp_history d @ [temperature (machine d')] \<and>
         prod_history d' = prod_history d @ [production_rate (machine d')] \<and>
         power_history d' = power_history d @ [power_consumption (machine d')] \<and>
         pressure_history d' = pressure_history d @ [pressure (machine d')] \<and>
         stress_history d' = stress_history d @ [stress (machine d')] \<and>
         map_sum id snd (DigitalTwin_update ns frame (d\<lparr> rotation := x \<rparr>, k)) = Inr r"
proof -
  from twin_update_Inr [OF assms] obtain m where
    m: "ManufacturingMachine_update ns k (machine d) = Inr (m, k')" by blast
  from twin_update_fields [OF m, of frame] assms
  have "r = (\<lparr> xdata = time d', ydata = temp_history d' \<rparr>,
              \<lparr> xdata = time d', ydata = prod_history d' \<rparr>,
              \<lparr> xdata = time d', ydata = power_history d' \<rparr>,
              \<lparr> xdata = time d', ydata = pressure_history d' \<rparr>,
              \<lparr> xdata = time d', ydata = stress_history d' \<rparr>) \<and>
         time d' = time d @ [frame] \<and>
         temp_history d' = temp_history d @ [temperature (machine d')] \<and>
         prod_history d' = prod_history d @ [production_rate (machine d')] \<and>
         power_history d' = power_history d @ [power_consumption (machine d')] \<and>
         pressure_history d' = pressure_history d @ [pressure (machine d')] \<and>
         stress_history d' = stress_history d @ [stress (machine d')]"
    by auto
  moreover have "map_sum id snd (DigitalTwin_update ns frame (d\<lparr> rotation := x \<rparr>, k)) = Inr r"
    using rotation_update_irrelevant [of ns frame x d k] assms by simp
  ultimately show ?thesis by simp
qed

theorem tick_returns_lines_witness:
  "\<exists>d'. DigitalTwin_update zero_noise 7 (twin0, 0) =
          Inr ((d', 5),
               (\<lparr> xdata = [7], ydata = [70] \<rparr>, \<lparr> xdata = [7], ydata = [28 / 3] \<rparr>,
                \<lparr> xdata = [7], ydata = [50] \<rparr>, \<lparr> xdata = [7], ydata = [1] \<rparr>,
                \<lparr> xdata = [7], ydata = [1] \<rparr>)) \<and>
        time d' = [7] \<and> temp_history d' = [temperature (machine d')] \<and>
        map_sum id snd (DigitalTwin_update zero_noise 7 (twin0\<lparr> rotation := 90 \<rparr>, 0)) =
          Inr (\<lparr> xdata = [7], ydata = [70] \<rparr>, \<lparr> xdata = [7], ydata = [28 / 3] \<rparr>,
                \<lparr> xdata = [7], ydata = [50] \<rparr>, \<lparr> xdata = [7], ydata = [1] \<rparr>,
                \<lparr> xdata = [7], ydata = [1] \<rparr>)"
proof -
  from twin_update_fields [OF twin0_first_update, of 7] obtain d' r where
    d: "DigitalTwin_update zero_noise 7 (twin0, 0) = Inr ((d', 5), r)" by blast
  from twin0_first_return d
  have r: "r = (\<lparr> xdata = [7], ydata = [70] \<rparr>, \<lparr> xdata = [7], ydata = [28 / 3] \<rparr>,
                \<lparr> xdata = [7], ydata = [50] \<rparr>, \<lparr> xdata = [7], ydata = [1] \<rparr>,
                \<lparr> xdata = [7], ydata = [1] \<rparr>)"
    by simp
  note t = tick_returns_lines [OF d, of 90]
  have 1: "time d' = [7]"
    using t [THEN conjunct2, THEN conjunct1] by (simp add: twin0_fields)
  have 2: "temp_history d' = [temperature (machine d')]"
    using t [THEN conjunct2, THEN conjunct2, THEN conjunct1] by (simp add: twin0_fields)
  have 3: "map_sum id snd (DigitalTwin_update zero_noise 7 (twin0\<lparr> rotation := 90 \<rparr>, 0)) = Inr r"
    using t by blast
  from d 1 2 3 show ?thesis unfolding r by blast
qed





text \<open>
  Claim C7. For every \<open>optimal_temp > 0\<close>, the \<open>temp_factor\<close> of line 23 is exactly 1 at
  \<open>temperature = optimal_temp\<close> and exactly 0 at \<open>temperature = optimal_temp * 2\<close>.
\<close>

theorem temp_factor_symmetry:
  assumes "0 < opt"
  shows "temp_factor opt opt = Inr 1 \<and> temp_factor (opt * 2) opt = Inr 0"
  using assms by (simp add: temp_factor_def)

theorem temp_factor_symmetry_witness:
  "temp_factor 50 50 = Inr 1 \<and> temp_factor 100 50 = Inr 0"
  using temp_factor_symmetry [of 50] by simp

text \<open>
  Claim C10. The constructor validates and clamps nothing: for all arguments the new
  machine has \<open>temperature = initial_temp\<close>, \<open>production_rate = initial_production_rate\<close>
  and \<open>power_consumption = initial_power\<close> exactly as passed, \<open>max_temp\<close> and
  \<open>optimal_temp\<close> as passed, and \<open>pressure = 1\<close>, \<open>stress = 1\<close>. The driver built on it
  holds the machine unchanged, and so does a run of no calls: the values stay until the
  first update.
\<close>

theorem init_no_validation:
  "temperature (ManufacturingMachine_init initial_temp mt ot initial_production_rate initial_power)
     = initial_temp \<and>
   max_temp (ManufacturingMachine_init initial_temp mt ot initial_production_rate initial_power)
     = mt \<and>
   optimal_temp (ManufacturingMachine_init initial_temp mt ot initial_production_rate initial_power)
     = ot \<and>
   production_rate (ManufacturingMachine_init initial_temp mt ot initial_production_rate initial_power)
     = initial_production_rate \<and>
   power_consumption (ManufacturingMachine_init initial_temp mt ot initial_production_rate initial_power)
     = initial_power \<and>
   pressure (ManufacturingMachine_init initial_temp mt ot initial_production_rate initial_power) = 1 \<and>
   stress (ManufacturingMachine_init initial_temp mt ot initial_production_rate initial_power) = 1 \<and>
   machine (visualize_setup (DigitalTwin_init
     (ManufacturingMachine_init initial_temp mt ot initial_production_rate initial_power))) =
     ManufacturingMachine_init initial_temp mt ot initial_production_rate initial_power \<and>
   run ns [] (visualize_setup (DigitalTwin_init
     (ManufacturingMachine_init initial_temp mt ot initial_production_rate initial_power)), k) =
     Inr (visualize_setup (DigitalTwin_init
       (ManufacturingMachine_init initial_temp mt ot initial_production_rate initial_power)), k)"
  by (simp add: ManufacturingMachine_init_def machine_visualize_setup)

end
